(* ===== verification/Prelude.thy ===== *)
theory Prelude
  imports Main
begin

text \<open>
  Shared vocabulary of the development: paths and file trees as the build
  context sees them, the error values of the host's failure taxonomy, the
  outcome type of a hook (the error together with the state the build stopped
  in, or the new state), sequencing of outcomes, and the generic lemmas on
  strings and paths that the component theories share.
\<close>

section \<open>Paths, file trees and errors\<close>

type_synonym path = string

text \<open>A file tree maps a path to the text of the file stored there.\<close>

type_synonym fs = "path \<rightharpoonup> string"

text \<open>
  The host's failure taxonomy (spec section 7): a command that exits with a
  non-zero status, a file an install helper does not find, a man page whose
  name carries no section, an unknown shell name, a template field that fails
  validation, and a fetched archive whose hash is not the template's
  \<open>sha256\<close>.
\<close>

datatype error =
    CommandFailed "string list" nat
  | MissingFile path
  | BadManPage path
  | UnknownShell string
  | InvalidField string
  | ChecksumMismatch

text \<open>
  A step of a hook either stops the build with an error, keeping the state
  reached so far (files a command wrote before failing stay on disk), or
  returns the new state.
\<close>

type_synonym 's outcome = "(error \<times> 's) + 's"

definition and_then :: "'s outcome \<Rightarrow> ('s \<Rightarrow> 's outcome) \<Rightarrow> 's outcome" where
  "and_then r f = (case r of Inl es \<Rightarrow> Inl es | Inr s \<Rightarrow> f s)"

text \<open>The state a step ends in, whether it stopped the build or not.\<close>

definition outcome_state :: "'s outcome \<Rightarrow> 's" where
  "outcome_state r = (case r of Inl (e, s) \<Rightarrow> s | Inr s \<Rightarrow> s)"

named_theorems outcome_simps "rules evaluating sequenced outcomes"

lemma and_then_Inl [simp, outcome_simps]: "and_then (Inl es) f = Inl es"
  by (simp add: and_then_def)

lemma and_then_Inr [simp, outcome_simps]: "and_then (Inr s) f = f s"
  by (simp add: and_then_def)

lemma outcome_state_Inl [simp, outcome_simps]: "outcome_state (Inl (e, s)) = s"
  by (simp add: outcome_state_def)

lemma outcome_state_Inr [simp, outcome_simps]: "outcome_state (Inr s) = s"
  by (simp add: outcome_state_def)

section \<open>Strings and paths\<close>

text \<open>The last component of a path, as \<open>os.path.basename\<close> computes it.\<close>

definition basename :: "path \<Rightarrow> string" where
  "basename p = rev (takeWhile (\<lambda>ch. ch \<noteq> CHR ''/'') (rev p))"

text \<open>
  \<open>pathlib\<close>'s \<open>d / n\<close>: an absolute \<open>n\<close> replaces \<open>d\<close>, a relative one is
  appended below it.
\<close>

definition path_join :: "path \<Rightarrow> path \<Rightarrow> path" where
  "path_join d n = (if take 1 n = ''/'' then n else d @ ''/'' @ n)"

definition file_text :: "fs \<Rightarrow> path \<Rightarrow> string" where
  "file_text t p = (case t p of None \<Rightarrow> [] | Some s \<Rightarrow> s)"

lemma basename_append:
  "CHR ''/'' \<in> set ys \<Longrightarrow> basename (xs @ ys) = basename ys"
  by (auto simp: basename_def takeWhile_append)

lemma basename_Cons:
  "basename (x # xs) =
     (if CHR ''/'' \<in> set xs then basename xs else if x = CHR ''/'' then xs else x # xs)"
  by (auto simp: basename_def takeWhile_append)

lemmas basename_simps = basename_append basename_Cons

lemma path_join_relative [simp]:
  "take 1 n \<noteq> ''/'' \<Longrightarrow> path_join d n = d @ ''/'' @ n"
  by (simp add: path_join_def)

lemma path_join_absolute [simp]:
  "take 1 n = ''/'' \<Longrightarrow> path_join d n = n"
  by (simp add: path_join_def)

lemma path_join_idem [simp]:
  "take 1 d = ''/'' \<Longrightarrow> path_join d' (path_join d n) = path_join d n"
  by (cases d) (auto simp: path_join_def)

lemma path_join_abs_append [simp]:
  "take 1 d = ''/'' \<Longrightarrow> path_join e (d @ r) = d @ r"
  by (cases d) (simp_all add: path_join_def)

lemma file_text_upd [simp]: "file_text (t(p \<mapsto> s)) p = s"
  by (simp add: file_text_def)

lemma file_text_Some [simp]: "t p = Some s \<Longrightarrow> file_text t p = s"
  by (simp add: file_text_def)

lemma file_text_None [simp]: "t p = None \<Longrightarrow> file_text t p = []"
  by (simp add: file_text_def)

text \<open>
  The position of an element in a list, as \<open>str.index\<close> finds it: the length
  of the prefix before its first occurrence.
\<close>

lemma takeWhile_index:
  "distinct xs \<Longrightarrow> i < length xs \<Longrightarrow> length (takeWhile (\<lambda>y. y \<noteq> xs ! i) xs) = i"
proof (induction xs arbitrary: i)
  case (Cons x xs)
  then show ?case by (cases i) (auto simp: nth_mem)
qed simp

lemma takeWhile_index_nth:
  "x \<in> set xs \<Longrightarrow> xs ! length (takeWhile (\<lambda>y. y \<noteq> x) xs) = x"
  by (induction xs) auto

lemma takeWhile_index_less:
  "x \<in> set xs \<Longrightarrow> length (takeWhile (\<lambda>y. y \<noteq> x) xs) < length xs"
  by (induction xs) auto

end
