(* ===== verification/Template.thy ===== *)
theory Template
  imports Prelude
begin

text \<open>
  The data a template declares (spec section 3) and the host's plan-time
  validation of it (spec sections 3 and 7). Each template module under
  \<open>src/contrib/*/template.py\<close> assigns module-level variables; the host reads
  them into one record, with an empty list for a list it does not declare.
  Validation is host code, not part of this repository, and is modelled from
  the spec: a buildable template has a non-empty \<open>pkgname\<close> and \<open>pkgver\<close> and a
  \<open>sha256\<close> of 64 hexadecimal digits.
\<close>

section \<open>The template record\<close>

record template =
  pkgname :: string
  pkgver :: string
  pkgrel :: nat
  build_style :: string
  configure_args :: "string list"
  make_build_args :: "string list"
  hostmakedepends :: "string list"
  makedepends :: "string list"
  depends :: "string list"
  pkgdesc :: string
  maintainer :: string
  license :: string
  url :: string
  source :: string
  sha256 :: string
  options :: "string list"

text \<open>
  The host's values for the fields a template does not assign: empty strings
  and lists, revision 0. A template module runs over these globals.
\<close>

definition template_defaults :: template where
  "template_defaults =
     \<lparr>pkgname = [], pkgver = [], pkgrel = 0, build_style = [], configure_args = [],
      make_build_args = [], hostmakedepends = [], makedepends = [], depends = [],
      pkgdesc = [], maintainer = [], license = [], url = [], source = [], sha256 = [],
      options = []\<rparr>"

section \<open>Validation by the host\<close>

definition is_hex_digit :: "char \<Rightarrow> bool" where
  "is_hex_digit c \<longleftrightarrow> c \<in> set ''0123456789abcdefABCDEF''"

definition valid_sha256 :: "string \<Rightarrow> bool" where
  "valid_sha256 s \<longleftrightarrow> length s = 64 \<and> list_all is_hex_digit s"

text \<open>
  The fields are checked in the order the spec lists them; the first one that
  fails is reported and the template is not built.
\<close>

definition validate_template :: "template \<Rightarrow> error + template" where
  "validate_template t =
     (if pkgname t = [] then Inl (InvalidField ''pkgname'')
      else if pkgver t = [] then Inl (InvalidField ''pkgver'')
      else if \<not> valid_sha256 (sha256 t) then Inl (InvalidField ''sha256'')
      else Inr t)"

text \<open>The dependency lists of a template name each package at most once.\<close>

definition deps_distinct :: "template \<Rightarrow> bool" where
  "deps_distinct t \<longleftrightarrow>
     distinct (hostmakedepends t) \<and> distinct (makedepends t) \<and> distinct (depends t)"

named_theorems template_checks "unfolding rules of the template predicates"

declare valid_sha256_def [template_checks] is_hex_digit_def [template_checks]
  deps_distinct_def [template_checks]

lemma validate_template_Inr:
  "validate_template t = Inr t' \<longleftrightarrow>
     t' = t \<and> pkgname t \<noteq> [] \<and> pkgver t \<noteq> [] \<and> valid_sha256 (sha256 t)"
  by (auto simp: validate_template_def)

end
