(* ===== verification/BuildContext.thy ===== *)
theory BuildContext
  imports Prelude
begin

text \<open>
  The build context a hook receives (spec sections 4.2 and 6). It is host code,
  not part of this repository, and is modelled from the spec: a working
  directory \<open>cwd\<close>, the directory of built binaries \<open>make_dir\<close>, the build tree
  (files keyed by their absolute path), the package tree \<open>destdir\<close> (files keyed
  by their path below the package root) and the list of commands run so far.

  External programs are not modelled: a \<open>runner\<close> says, for a command run in
  a directory over a build tree, its exit status, what it prints and the build
  tree it leaves. Every lemma about a hook holds for every runner; a runner is a
  hypothesis only where a statement is about what a particular command does.

  A hook is a strictly sequential list of calls (\<open>call\<close>): \<open>self.do\<close>,
  \<open>open(path, "w")\<close>, and the three install helpers. \<open>exec_calls\<close> runs them
  in order and stops at the first that fails, with the state the build stopped
  in.
\<close>

section \<open>The build context\<close>

record ctx =
  ctx_pkgname :: string
  cwd :: path
  make_dir :: path
  wrksrc :: fs
  destdir :: fs
  cmd_log :: "string list list"

type_synonym runner = "path \<Rightarrow> string list \<Rightarrow> fs \<Rightarrow> nat \<times> string \<times> fs"

section \<open>Running commands: \<open>self.do\<close> and \<open>open\<close>\<close>

text \<open>
  \<open>self.do(argv..., stdout=f)\<close>: the command runs in \<open>cwd\<close>; what it prints is
  appended to the file \<open>f\<close> was opened on, if any; a non-zero exit status
  aborts the build. The command is logged whether or not it succeeds, and what it
  wrote before failing stays in the tree.
\<close>

definition do_cmd :: "runner \<Rightarrow> string list \<Rightarrow> path option \<Rightarrow> ctx \<Rightarrow> ctx outcome" where
  "do_cmd rn argv out c =
     (case rn (cwd c) argv (wrksrc c) of (st, printed, t) \<Rightarrow>
        let t' = (case out of None \<Rightarrow> t
                  | Some p \<Rightarrow> t(path_join (cwd c) p \<mapsto> file_text t (path_join (cwd c) p) @ printed));
            c' = c\<lparr>wrksrc := t', cmd_log := cmd_log c @ [argv]\<rparr>
        in if st = 0 then Inr c' else Inl (CommandFailed argv st, c'))"

text \<open>\<open>open(p, "w")\<close> creates the file, or truncates it, before anything is written.\<close>

definition open_write :: "path \<Rightarrow> ctx \<Rightarrow> ctx" where
  "open_write p c = c\<lparr>wrksrc := (wrksrc c)(path_join (cwd c) p \<mapsto> [])\<rparr>"

section \<open>Install helpers\<close>

text \<open>
  Each helper copies one file of the build tree (a path relative to \<open>cwd\<close>) to
  its conventional place in the package tree; a missing source file aborts the
  build with its path.
\<close>

definition install_to :: "path \<Rightarrow> path \<Rightarrow> ctx \<Rightarrow> ctx outcome" where
  "install_to dst p c =
     (case wrksrc c (path_join (cwd c) p) of
        None \<Rightarrow> Inl (MissingFile p, c)
      | Some v \<Rightarrow> Inr (c\<lparr>destdir := (destdir c)(dst \<mapsto> v)\<rparr>))"

text \<open>The section of a man page is the suffix of its name after the last dot.\<close>

definition man_section :: "string \<Rightarrow> string option" where
  "man_section n =
     (let sec = rev (takeWhile (\<lambda>ch. ch \<noteq> CHR ''.'') (rev n))
      in if CHR ''.'' \<in> set n \<and> sec \<noteq> [] then Some sec else None)"

definition man_dest :: "path \<Rightarrow> path option" where
  "man_dest p = map_option (\<lambda>sec. ''usr/share/man/man'' @ sec @ ''/'' @ basename p)
                  (man_section (basename p))"

definition completion_dest :: "string \<Rightarrow> string \<Rightarrow> path option" where
  "completion_dest pkg sh =
     (if sh = ''bash'' then Some (''usr/share/bash-completion/completions/'' @ pkg)
      else if sh = ''zsh'' then Some (''usr/share/zsh/site-functions/_'' @ pkg)
      else if sh = ''fish'' then Some (''usr/share/fish/vendor_completions.d/'' @ pkg @ ''.fish'')
      else None)"

definition license_dest :: "string \<Rightarrow> path \<Rightarrow> path" where
  "license_dest pkg p = ''usr/share/licenses/'' @ pkg @ ''/'' @ basename p"

definition install_man :: "path \<Rightarrow> ctx \<Rightarrow> ctx outcome" where
  "install_man p c =
     (case man_dest p of None \<Rightarrow> Inl (BadManPage p, c) | Some dst \<Rightarrow> install_to dst p c)"

definition install_completion :: "path \<Rightarrow> string \<Rightarrow> ctx \<Rightarrow> ctx outcome" where
  "install_completion p sh c =
     (case completion_dest (ctx_pkgname c) sh of
        None \<Rightarrow> Inl (UnknownShell sh, c)
      | Some dst \<Rightarrow> install_to dst p c)"

definition install_license :: "path \<Rightarrow> ctx \<Rightarrow> ctx outcome" where
  "install_license p c = install_to (license_dest (ctx_pkgname c) p) p c"

section \<open>Hooks as sequences of calls\<close>

datatype call =
    Do "string list" "path option"
  | OpenWrite path
  | InstallMan path
  | InstallCompletion path string
  | InstallLicense path

fun exec_call :: "runner \<Rightarrow> call \<Rightarrow> ctx \<Rightarrow> ctx outcome" where
  "exec_call rn (Do argv out) c = do_cmd rn argv out c"
| "exec_call rn (OpenWrite p) c = Inr (open_write p c)"
| "exec_call rn (InstallMan p) c = install_man p c"
| "exec_call rn (InstallCompletion p sh) c = install_completion p sh c"
| "exec_call rn (InstallLicense p) c = install_license p c"

fun exec_calls :: "runner \<Rightarrow> call list \<Rightarrow> ctx \<Rightarrow> ctx outcome" where
  "exec_calls rn [] c = Inr c"
| "exec_calls rn (a # as) c = and_then (exec_call rn a c) (exec_calls rn as)"

end
