(* ===== verification/Sbctl.thy ===== *)
theory Sbctl
  imports Template BuildContext
begin

text \<open>
  The template \<open>src/contrib/sbctl/template.py\<close>: its metadata (lines 1--16),
  the source URL built by an f-string (line 14), the \<open>post_build\<close> hook that
  generates the man page and three shell completions (lines 19--48) and the
  \<open>post_install\<close> hook that installs them with the licence (lines 51--58).
  Each hook is the list of calls its body makes, in the body's order, run by
  \<open>exec_calls\<close> of \<open>BuildContext\<close>.
\<close>

section \<open>Metadata\<close>

text \<open>\<open>source = f"{url}/releases/download/{pkgver}/{pkgname}-{pkgver}.tar.gz"\<close>\<close>

definition sbctl_source :: "string \<Rightarrow> string \<Rightarrow> string \<Rightarrow> string" where
  "sbctl_source u v n = u @ ''/releases/download/'' @ v @ ''/'' @ n @ ''-'' @ v @ ''.tar.gz''"

text \<open>The lists of lines 5--9.\<close>

definition sbctl_make_build_args :: "string list" where
  "sbctl_make_build_args = [''./cmd/sbctl'']"

definition sbctl_hostmakedepends :: "string list" where
  "sbctl_hostmakedepends = [''go'', ''asciidoc'', ''gmake'']"

definition sbctl_depends :: "string list" where
  "sbctl_depends = [''llvm-binutils'']"

text \<open>
  The module's top level: lines 1--16 assign every field but
  \<open>configure_args\<close> and \<open>makedepends\<close>, which keep the host's value; the
  f-string of line 14 reads \<open>url\<close>, \<open>pkgver\<close> and \<open>pkgname\<close> as lines 1--13
  left them.
\<close>

definition sbctl_module :: "template \<Rightarrow> template" where
  "sbctl_module g =
     (let g1 = g\<lparr>pkgname := ''sbctl'', pkgver := ''0.12'', pkgrel := 0, build_style := ''go'',
                 make_build_args := sbctl_make_build_args,
                 hostmakedepends := sbctl_hostmakedepends,
                 depends := sbctl_depends,
                 pkgdesc := ''Secure Boot key manager'',
                 maintainer := ''flukey <flukey@vapourmail.eu>'', license := ''MIT'',
                 url := ''https://github.com/Foxboron/sbctl''\<rparr>
      in g1\<lparr>source := sbctl_source (url g1) (pkgver g1) (pkgname g1),
            sha256 := ''72475519733385b0effb422ff058e95f0282fa93eccf03df07e3402736646b97'',
            options := [''!cross'']\<rparr>)"

definition sbctl_template :: template where
  "sbctl_template = sbctl_module template_defaults"

lemmas sbctl_lists = sbctl_make_build_args_def sbctl_hostmakedepends_def sbctl_depends_def

section \<open>Hooks\<close>

text \<open>
  \<open>post_build\<close>: \<open>gmake man\<close>, then for bash, zsh and fish in turn, open
  \<open>self.cwd / "sbctl.<shell>"\<close> for writing and run
  \<open>self.make_dir + "/sbctl" completion <shell>\<close> with its output sent there.
\<close>

definition sbctl_post_build_calls :: "ctx \<Rightarrow> call list" where
  "sbctl_post_build_calls c =
     [Do [''gmake'', ''man''] None,
      OpenWrite (path_join (cwd c) ''sbctl.bash''),
      Do [make_dir c @ ''/sbctl'', ''completion'', ''bash''] (Some (path_join (cwd c) ''sbctl.bash'')),
      OpenWrite (path_join (cwd c) ''sbctl.zsh''),
      Do [make_dir c @ ''/sbctl'', ''completion'', ''zsh''] (Some (path_join (cwd c) ''sbctl.zsh'')),
      OpenWrite (path_join (cwd c) ''sbctl.fish''),
      Do [make_dir c @ ''/sbctl'', ''completion'', ''fish''] (Some (path_join (cwd c) ''sbctl.fish''))]"

definition sbctl_post_build :: "runner \<Rightarrow> ctx \<Rightarrow> ctx outcome" where
  "sbctl_post_build rn c = exec_calls rn (sbctl_post_build_calls c) c"

definition sbctl_post_install_calls :: "call list" where
  "sbctl_post_install_calls =
     [InstallMan ''docs/sbctl.8'',
      InstallCompletion ''sbctl.bash'' ''bash'',
      InstallCompletion ''sbctl.zsh'' ''zsh'',
      InstallCompletion ''sbctl.fish'' ''fish'',
      InstallLicense ''LICENSE'']"

definition sbctl_post_install :: "runner \<Rightarrow> ctx \<Rightarrow> ctx outcome" where
  "sbctl_post_install rn c = exec_calls rn sbctl_post_install_calls c"

text \<open>The command line of one completion generator, and the file it writes.\<close>

definition sbctl_completion_cmd :: "ctx \<Rightarrow> string \<Rightarrow> string list" where
  "sbctl_completion_cmd c sh = [make_dir c @ ''/sbctl'', ''completion'', sh]"

definition sbctl_completion_file :: "ctx \<Rightarrow> string \<Rightarrow> path" where
  "sbctl_completion_file c sh = cwd c @ ''/sbctl.'' @ sh"

lemmas sbctl_hook_defs = sbctl_post_build_def sbctl_post_build_calls_def
  sbctl_completion_cmd_def sbctl_completion_file_def

section \<open>post_build\<close>

text \<open>
  C6. A successful \<open>post_build\<close>: \<open>gmake man\<close> succeeds and each completion
  command prints its script without touching the tree; then the tree is the one
  \<open>gmake man\<close> left, with the three completion files holding exactly the
  printed scripts, and the four commands are logged in the source's order.
\<close>

theorem sbctl_post_build_ok:
  assumes cwd: "take 1 (cwd c) = ''/''"
    and man: "rn (cwd c) [''gmake'', ''man''] (wrksrc c) = (0, m, t1)"
    and comp: "\<forall>sh \<in> {''bash'', ''zsh'', ''fish''}. \<forall>t.
                 rn (cwd c) (sbctl_completion_cmd c sh) t = (0, script sh, t)"
  shows "sbctl_post_build rn c =
           Inr (c\<lparr>wrksrc := t1(sbctl_completion_file c ''bash'' \<mapsto> script ''bash'',
                               sbctl_completion_file c ''zsh'' \<mapsto> script ''zsh'',
                               sbctl_completion_file c ''fish'' \<mapsto> script ''fish''),
                  cmd_log := cmd_log c @ [[''gmake'', ''man''],
                               sbctl_completion_cmd c ''bash'', sbctl_completion_cmd c ''zsh'',
                               sbctl_completion_cmd c ''fish'']\<rparr>)"
  using cwd man comp
  by (simp add: sbctl_hook_defs do_cmd_def open_write_def fun_upd_twist)

text \<open>
  C7. If \<open>gmake man\<close> fails, the hook stops there: no completion file is opened,
  no other command runs, and the error names the failing command and its
  status.
\<close>

theorem sbctl_post_build_man_fails:
  assumes "rn (cwd c) [''gmake'', ''man''] (wrksrc c) = (k, m, t1)" and "k \<noteq> 0"
  shows "sbctl_post_build rn c =
           Inl (CommandFailed [''gmake'', ''man''] k,
                c\<lparr>wrksrc := t1, cmd_log := cmd_log c @ [[''gmake'', ''man'']]\<rparr>)"
  using assms by (simp add: sbctl_hook_defs do_cmd_def)

text \<open>
  C8. A completion command that fails leaves its file behind: \<open>open(..., "w")\<close>
  has already created it, and it holds whatever the command printed before it
  failed. Here the zsh generator fails after the bash one succeeded: the bash
  file is complete, the zsh file holds the partial output, and the fish file is
  never opened.
\<close>

theorem sbctl_post_build_zsh_fails:
  assumes cwd: "take 1 (cwd c) = ''/''"
    and man: "rn (cwd c) [''gmake'', ''man''] (wrksrc c) = (0, m, t1)"
    and bash: "\<forall>t. rn (cwd c) (sbctl_completion_cmd c ''bash'') t = (0, script, t)"
    and zsh: "\<forall>t. rn (cwd c) (sbctl_completion_cmd c ''zsh'') t = (k, partial, t)"
    and fail: "k \<noteq> 0"
  shows "sbctl_post_build rn c =
           Inl (CommandFailed (sbctl_completion_cmd c ''zsh'') k,
                c\<lparr>wrksrc := t1(sbctl_completion_file c ''bash'' \<mapsto> script,
                               sbctl_completion_file c ''zsh'' \<mapsto> partial),
                  cmd_log := cmd_log c @ [[''gmake'', ''man''],
                    sbctl_completion_cmd c ''bash'', sbctl_completion_cmd c ''zsh'']\<rparr>)"
  using assms by (simp add: sbctl_hook_defs do_cmd_def open_write_def)

section \<open>post_install\<close>

text \<open>Where the five installed files land for a package named \<open>sbctl\<close>.\<close>

lemma sbctl_install_dests:
  "man_dest ''docs/sbctl.8'' = Some ''usr/share/man/man8/sbctl.8''"
  "completion_dest ''sbctl'' ''bash'' = Some ''usr/share/bash-completion/completions/sbctl''"
  "completion_dest ''sbctl'' ''zsh'' = Some ''usr/share/zsh/site-functions/_sbctl''"
  "completion_dest ''sbctl'' ''fish'' = Some ''usr/share/fish/vendor_completions.d/sbctl.fish''"
  "license_dest ''sbctl'' ''LICENSE'' = ''usr/share/licenses/sbctl/LICENSE''"
  by (simp_all add: man_dest_def man_section_def completion_dest_def license_dest_def
      basename_def)

text \<open>
  C9. A successful \<open>post_install\<close>: when the man page, the three
  completions and \<open>LICENSE\<close> are in the build tree, the package tree gains
  exactly five files, each with the content of its source, at the man, bash,
  zsh, fish and licence locations for \<open>sbctl\<close>; nothing else changes.
\<close>

theorem sbctl_post_install_ok:
  assumes pkg: "ctx_pkgname c = ''sbctl''"
    and man: "wrksrc c (cwd c @ ''/docs/sbctl.8'') = Some m"
    and bash: "wrksrc c (cwd c @ ''/sbctl.bash'') = Some b"
    and zsh: "wrksrc c (cwd c @ ''/sbctl.zsh'') = Some z"
    and fish: "wrksrc c (cwd c @ ''/sbctl.fish'') = Some f"
    and lic: "wrksrc c (cwd c @ ''/LICENSE'') = Some l"
  shows "sbctl_post_install rn c =
           Inr (c\<lparr>destdir := (destdir c)(''usr/share/man/man8/sbctl.8'' \<mapsto> m,
                  ''usr/share/bash-completion/completions/sbctl'' \<mapsto> b,
                  ''usr/share/zsh/site-functions/_sbctl'' \<mapsto> z,
                  ''usr/share/fish/vendor_completions.d/sbctl.fish'' \<mapsto> f,
                  ''usr/share/licenses/sbctl/LICENSE'' \<mapsto> l)\<rparr>)"
  using assms
  by (simp add: sbctl_post_install_def sbctl_post_install_calls_def install_man_def
      install_completion_def install_license_def install_to_def sbctl_install_dests)

text \<open>
  C10. \<open>post_install\<close> fails only for a missing file: the error names one of
  its five source paths that the build tree lacks (never a bad man page name or
  an unknown shell), and the build tree and command log are left as they were.
\<close>

theorem sbctl_post_install_fails:
  assumes "sbctl_post_install rn c = Inl (e, c')"
  shows "(\<exists>f \<in> set [''docs/sbctl.8'', ''sbctl.bash'', ''sbctl.zsh'', ''sbctl.fish'', ''LICENSE''].
            e = MissingFile f \<and> wrksrc c (cwd c @ ''/'' @ f) = None) \<and>
         wrksrc c' = wrksrc c \<and> cmd_log c' = cmd_log c"
  using assms
  by (auto simp: sbctl_post_install_def sbctl_post_install_calls_def install_man_def
      install_completion_def install_license_def install_to_def sbctl_install_dests
      completion_dest_def split: option.splits)

text \<open>
  C11. The f-string names the downloaded archive after the package: the last
  component of the source URL is \<open>{pkgname}-{pkgver}.tar.gz\<close> whenever
  neither name contains a slash.
\<close>

theorem sbctl_distfile:
  assumes "CHR ''/'' \<notin> set v" and "CHR ''/'' \<notin> set n"
  shows "basename (sbctl_source u v n) = n @ ''-'' @ v @ ''.tar.gz''"
  using assms by (simp add: sbctl_source_def basename_simps)

end
