(* ===== verification/Neovim.thy ===== *)
theory Neovim
  imports Template BuildContext
begin

text \<open>
  The template \<open>src/contrib/neovim/template.py\<close>: the assignments of its top
  level (lines 2--37), the \<open>match\<close> on the target architecture that appends
  either LuaJIT or Lua 5.1 to three lists (lines 40--49), and the
  \<open>post_install\<close> hook that installs the licence (lines 52--53). The module is
  a function over the template's globals: the assignments, then the \<open>match\<close>,
  whose \<open>+=\<close> extends the lists just assigned.
\<close>

section \<open>Metadata\<close>

definition neovim_configure_args :: "string list" where
  "neovim_configure_args = [''-DCMAKE_BUILD_TYPE=RelWithDebInfo'']"

definition neovim_hostmakedepends :: "string list" where
  "neovim_hostmakedepends =
     [''cmake'', ''ninja'', ''pkgconf'', ''gperf'', ''gettext'',
      ''lua5.1-bitop'', ''lua5.1-lpeg'', ''lua5.1-libluv'', ''lua5.1-mpack'']"

definition neovim_makedepends :: "string list" where
  "neovim_makedepends =
     [''unibilium-devel'', ''libtermkey-devel'', ''libvterm-devel'', ''libuv-devel'',
      ''lua5.1-libluv-devel'', ''msgpack-c-devel'', ''tree-sitter-devel'']"

text \<open>\<open>source = f"https://github.com/neovim/neovim/archive/v{pkgver}.tar.gz"\<close>\<close>

definition neovim_source :: "string \<Rightarrow> string" where
  "neovim_source v = ''https://github.com/neovim/neovim/archive/v'' @ v @ ''.tar.gz''"

text \<open>
  Lines 2--37 assign every field but \<open>make_build_args\<close> and \<open>depends\<close>, which
  keep the host's value; the f-string of line 33 reads \<open>pkgver\<close> as line 3 set
  it.
\<close>

definition neovim_assign :: "template \<Rightarrow> template" where
  "neovim_assign g =
     (let g1 = g\<lparr>pkgname := ''neovim'', pkgver := ''0.9.5'', pkgrel := 2, build_style := ''cmake'',
                 configure_args := neovim_configure_args,
                 hostmakedepends := neovim_hostmakedepends,
                 makedepends := neovim_makedepends,
                 pkgdesc := ''Fork of Vim aiming to improve user experience, plugins and GUIs'',
                 maintainer := ''yopito <pierre.bourgin@free.fr>'',
                 license := ''Apache-2.0 AND custom:Vim'',
                 url := ''https://neovim.io''\<rparr>
      in g1\<lparr>source := neovim_source (pkgver g1),
            sha256 := ''fe74369fc30a32ec7a086b1013acd0eacd674e7570eb1acc520a66180c9e9719'',
            options := [''!check'']\<rparr>)"

text \<open>
  \<open>match self.profile().arch\<close>: the first case lists the architectures built
  against LuaJIT, the wildcard case takes every other one.
\<close>

text \<open>The first case (lines 41--45): LuaJIT.\<close>

definition neovim_luajit_case :: "template \<Rightarrow> template" where
  "neovim_luajit_case g =
     g\<lparr>configure_args := configure_args g @ [''-DPREFER_LUA=OFF''],
       hostmakedepends := hostmakedepends g @ [''luajit''],
       makedepends := makedepends g @ [''luajit-devel'']\<rparr>"

text \<open>The wildcard case (lines 46--49): Lua 5.1.\<close>

definition neovim_lua51_case :: "template \<Rightarrow> template" where
  "neovim_lua51_case g =
     g\<lparr>configure_args := configure_args g @ [''-DPREFER_LUA=ON''],
       hostmakedepends := hostmakedepends g @ [''lua5.1''],
       makedepends := makedepends g @ [''lua5.1-devel'']\<rparr>"

definition neovim_arch_match :: "string \<Rightarrow> template \<Rightarrow> template" where
  "neovim_arch_match arch g =
     (if arch = ''aarch64'' \<or> arch = ''ppc64le'' \<or> arch = ''x86_64'' then neovim_luajit_case g
      else neovim_lua51_case g)"

definition neovim_module :: "string \<Rightarrow> template \<Rightarrow> template" where
  "neovim_module arch g = neovim_arch_match arch (neovim_assign g)"

definition neovim_template :: "string \<Rightarrow> template" where
  "neovim_template arch = neovim_module arch template_defaults"

section \<open>Hook\<close>

definition neovim_post_install_calls :: "call list" where
  "neovim_post_install_calls = [InstallLicense ''LICENSE.txt'']"

definition neovim_post_install :: "runner \<Rightarrow> ctx \<Rightarrow> ctx outcome" where
  "neovim_post_install rn c = exec_calls rn neovim_post_install_calls c"

section \<open>The architecture switch\<close>

text \<open>The architectures of the \<open>match\<close>'s first case.\<close>

definition luajit_arch :: "string \<Rightarrow> bool" where
  "luajit_arch arch \<longleftrightarrow> arch \<in> {''aarch64'', ''ppc64le'', ''x86_64''}"

lemmas neovim_lists = neovim_configure_args_def neovim_hostmakedepends_def
  neovim_makedepends_def

lemmas neovim_match_defs = neovim_arch_match_def neovim_luajit_case_def neovim_lua51_case_def

text \<open>
  What the module computes, field by field: the three lists are the assigned
  ones with one entry appended, chosen by the architecture.
\<close>

lemma neovim_template_lists:
  "configure_args (neovim_template arch) =
     neovim_configure_args @ [if luajit_arch arch then ''-DPREFER_LUA=OFF'' else ''-DPREFER_LUA=ON'']"
  "hostmakedepends (neovim_template arch) =
     neovim_hostmakedepends @ [if luajit_arch arch then ''luajit'' else ''lua5.1'']"
  "makedepends (neovim_template arch) =
     neovim_makedepends @ [if luajit_arch arch then ''luajit-devel'' else ''lua5.1-devel'']"
  by (simp_all add: neovim_template_def neovim_module_def neovim_match_defs
      neovim_assign_def luajit_arch_def Let_def)

text \<open>
  The lists the module assigns carry Lua 5.1 modules but neither Lua
  interpreter nor the
  \<open>PREFER_LUA\<close> option: only the \<open>match\<close> adds them.
\<close>

lemma neovim_lists_lua:
  "''lua5.1-lpeg'' \<in> set neovim_hostmakedepends"
  "''-DPREFER_LUA=OFF'' \<notin> set neovim_configure_args"
  "''-DPREFER_LUA=ON'' \<notin> set neovim_configure_args"
  "''luajit'' \<notin> set neovim_hostmakedepends"
  "''lua5.1'' \<notin> set neovim_hostmakedepends"
  "''luajit-devel'' \<notin> set neovim_makedepends"
  "''lua5.1-devel'' \<notin> set neovim_makedepends"
  "filter (\<lambda>a. take 13 a = ''-DPREFER_LUA='') neovim_configure_args = []"
  "filter (\<lambda>d. d = ''luajit'' \<or> d = ''lua5.1'') neovim_hostmakedepends = []"
  "filter (\<lambda>d. d = ''luajit-devel'' \<or> d = ''lua5.1-devel'') neovim_makedepends = []"
  by (simp_all add: neovim_lists)

text \<open>The fields the host validates do not depend on the architecture.\<close>

lemma neovim_template_meta:
  "pkgname (neovim_template arch) = ''neovim''"
  "pkgver (neovim_template arch) = ''0.9.5''"
  "sha256 (neovim_template arch) = ''fe74369fc30a32ec7a086b1013acd0eacd674e7570eb1acc520a66180c9e9719''"
  "depends (neovim_template arch) = []"
  by (simp_all add: neovim_template_def neovim_module_def neovim_match_defs
      neovim_assign_def template_defaults_def Let_def)

text \<open>Re-running the assignments, or running them after the \<open>match\<close>, resets the lists.\<close>

lemma neovim_assign_idem: "neovim_assign (neovim_assign g) = neovim_assign g"
  by (simp add: neovim_assign_def Let_def)

lemma neovim_assign_match: "neovim_assign (neovim_arch_match arch g) = neovim_assign g"
  by (cases "arch = ''aarch64'' \<or> arch = ''ppc64le'' \<or> arch = ''x86_64''")
    (simp_all add: neovim_match_defs neovim_assign_def Let_def)

text \<open>The module yields one of two templates, and the two differ.\<close>

text \<open>
  C1. The architecture decides the Lua implementation: the LuaJIT option,
  LuaJIT and its headers are configured exactly on aarch64, ppc64le and
  x86_64, and Lua 5.1 with \<open>-DPREFER_LUA=ON\<close> exactly on every other
  architecture.
\<close>

theorem neovim_lua_by_arch:
  "(''-DPREFER_LUA=OFF'' \<in> set (configure_args (neovim_template arch)) \<longleftrightarrow> luajit_arch arch) \<and>
   (''-DPREFER_LUA=ON'' \<in> set (configure_args (neovim_template arch)) \<longleftrightarrow> \<not> luajit_arch arch) \<and>
   (''luajit'' \<in> set (hostmakedepends (neovim_template arch)) \<longleftrightarrow> luajit_arch arch) \<and>
   (''lua5.1'' \<in> set (hostmakedepends (neovim_template arch)) \<longleftrightarrow> \<not> luajit_arch arch) \<and>
   (''luajit-devel'' \<in> set (makedepends (neovim_template arch)) \<longleftrightarrow> luajit_arch arch) \<and>
   (''lua5.1-devel'' \<in> set (makedepends (neovim_template arch)) \<longleftrightarrow> \<not> luajit_arch arch)"
  by (simp add: neovim_template_lists neovim_lists_lua)

text \<open>
  C2. Whatever the architecture, the configure arguments carry exactly one
  \<open>-DPREFER_LUA=\<close> option and the host dependencies exactly one Lua
  interpreter: the build never gets both implementations, nor neither.
\<close>

theorem neovim_one_lua:
  "length (filter (\<lambda>a. take 13 a = ''-DPREFER_LUA='') (configure_args (neovim_template arch))) = 1 \<and>
   length (filter (\<lambda>d. d = ''luajit'' \<or> d = ''lua5.1'') (hostmakedepends (neovim_template arch))) = 1 \<and>
   length (filter (\<lambda>d. d = ''luajit-devel'' \<or> d = ''lua5.1-devel'') (makedepends (neovim_template arch))) = 1"
  by (simp add: neovim_template_lists neovim_lists_lua)

text \<open>
  C3. Running the module again over the globals it produced yields the same
  template: the top level re-assigns the three lists before the \<open>match\<close>
  extends them, so reading the metadata twice gives identical values.
\<close>

theorem neovim_module_idem:
  "neovim_module arch (neovim_module arch g) = neovim_module arch g"
  by (simp only: neovim_module_def neovim_assign_match neovim_assign_idem)

text \<open>
  C4. The architecture changes nothing but the three lists: the templates of
  any two architectures agree on every other field.
\<close>

theorem neovim_arch_frame:
  "neovim_template a\<lparr>configure_args := [], hostmakedepends := [], makedepends := []\<rparr> =
   neovim_template b\<lparr>configure_args := [], hostmakedepends := [], makedepends := []\<rparr>"
  by (simp add: neovim_template_def neovim_module_def neovim_match_defs)

text \<open>
  C5. \<open>post_install\<close> copies \<open>LICENSE.txt\<close> to the package's licence
  directory, and stops with the file's name when the build tree has no such
  file; nothing else changes.
\<close>

theorem neovim_post_install_spec:
  "neovim_post_install rn c =
     (case wrksrc c (cwd c @ ''/LICENSE.txt'') of
        None \<Rightarrow> Inl (MissingFile ''LICENSE.txt'', c)
      | Some l \<Rightarrow> Inr (c\<lparr>destdir := (destdir c)(''usr/share/licenses/'' @ ctx_pkgname c @ ''/LICENSE.txt'' \<mapsto> l)\<rparr>))"
  by (simp add: neovim_post_install_def neovim_post_install_calls_def install_license_def
      install_to_def license_dest_def basename_def split: option.splits)

text \<open>
  C19. neovim's f-string names the downloaded archive after the version tag
  alone: for every version without a slash the last component of the source
  URL is \<open>v{pkgver}.tar.gz\<close>, and on every architecture the template's
  \<open>source\<close> is that URL for the template's own \<open>pkgver\<close>.
\<close>

theorem neovim_distfile:
  assumes "CHR ''/'' \<notin> set v"
  shows "basename (neovim_source v) = ''v'' @ v @ ''.tar.gz'' \<and>
         source (neovim_template arch) = neovim_source (pkgver (neovim_template arch))"
  using assms
  by (simp add: neovim_source_def basename_simps neovim_template_def neovim_module_def
      neovim_match_defs neovim_assign_def Let_def)

theorem neovim_distfile_witness:
  "basename (neovim_source ''0.9.5'') = ''v0.9.5.tar.gz'' \<and>
   source (neovim_template ''x86_64'') = neovim_source (pkgver (neovim_template ''x86_64''))"
  using neovim_distfile [of "''0.9.5''" "''x86_64''"] by simp

end
