(* ===== verification/Scenarios.thy ===== *)
theory Scenarios
  imports Sbctl Neovim
begin

text \<open>
  Concrete builds on which the hooks run: a working directory, a build tree,
  and runners standing for the external programs (\<open>gmake\<close> and the built
  \<open>sbctl\<close> binary), one that behaves and two that fail at a chosen command.
  Each theorem with hypotheses is applied here at one of these builds, with
  every hypothesis discharged by evaluation.
\<close>

section \<open>Fixtures\<close>

definition demo_ctx :: ctx where
  "demo_ctx =
     \<lparr>ctx_pkgname = ''sbctl'', cwd = ''/builddir/sbctl-0.12'', make_dir = ''build'',
      wrksrc = [''/builddir/sbctl-0.12/LICENSE'' \<mapsto> ''MIT License''],
      destdir = Map.empty, cmd_log = []\<rparr>"

definition demo_script :: "string \<Rightarrow> string" where
  "demo_script sh =
     (if sh = ''bash'' then ''complete -F _sbctl sbctl''
      else if sh = ''zsh'' then ''#compdef sbctl'' else ''complete -c sbctl'')"

text \<open>\<open>gmake man\<close> writes the man page; \<open>build/sbctl completion <shell>\<close> prints a script.\<close>

definition demo_runner :: runner where
  "demo_runner d argv t =
     (if argv = [''gmake'', ''man''] then (0, [], t(d @ ''/docs/sbctl.8'' \<mapsto> ''.TH SBCTL 8''))
      else if argv = [''build/sbctl'', ''completion'', ''bash''] then (0, demo_script ''bash'', t)
      else if argv = [''build/sbctl'', ''completion'', ''zsh''] then (0, demo_script ''zsh'', t)
      else if argv = [''build/sbctl'', ''completion'', ''fish''] then (0, demo_script ''fish'', t)
      else (127, [], t))"

definition man_broken_runner :: runner where
  "man_broken_runner d argv t = (if argv = [''gmake'', ''man''] then (2, [], t) else demo_runner d argv t)"

definition zsh_broken_runner :: runner where
  "zsh_broken_runner d argv t =
     (if argv = [''build/sbctl'', ''completion'', ''zsh''] then (1, ''#comp'', t)
      else demo_runner d argv t)"

text \<open>The build tree after a successful \<open>post_build\<close>.\<close>

definition demo_built :: ctx where
  "demo_built =
     demo_ctx\<lparr>wrksrc := (wrksrc demo_ctx)(
        ''/builddir/sbctl-0.12/docs/sbctl.8'' \<mapsto> ''.TH SBCTL 8'',
        ''/builddir/sbctl-0.12/sbctl.bash'' \<mapsto> demo_script ''bash'',
        ''/builddir/sbctl-0.12/sbctl.zsh'' \<mapsto> demo_script ''zsh'',
        ''/builddir/sbctl-0.12/sbctl.fish'' \<mapsto> demo_script ''fish'')\<rparr>"

definition neovim_demo_ctx :: ctx where
  "neovim_demo_ctx =
     \<lparr>ctx_pkgname = ''neovim'', cwd = ''/builddir/neovim-0.9.5'', make_dir = ''build'',
      wrksrc = [''/builddir/neovim-0.9.5/LICENSE.txt'' \<mapsto> ''Apache License''],
      destdir = Map.empty, cmd_log = []\<rparr>"

lemmas demo_defs = demo_ctx_def demo_script_def demo_runner_def man_broken_runner_def
  zsh_broken_runner_def demo_built_def neovim_demo_ctx_def sbctl_completion_cmd_def

section \<open>Witnesses\<close>

theorem sbctl_post_build_ok_witness:
  "sbctl_post_build demo_runner demo_ctx =
     Inr (demo_ctx\<lparr>wrksrc := ((wrksrc demo_ctx)(''/builddir/sbctl-0.12/docs/sbctl.8'' \<mapsto> ''.TH SBCTL 8''))(
                       sbctl_completion_file demo_ctx ''bash'' \<mapsto> demo_script ''bash'',
                       sbctl_completion_file demo_ctx ''zsh'' \<mapsto> demo_script ''zsh'',
                       sbctl_completion_file demo_ctx ''fish'' \<mapsto> demo_script ''fish''),
          cmd_log := cmd_log demo_ctx @ [[''gmake'', ''man''],
                       sbctl_completion_cmd demo_ctx ''bash'', sbctl_completion_cmd demo_ctx ''zsh'',
                       sbctl_completion_cmd demo_ctx ''fish'']\<rparr>)"
  by (rule sbctl_post_build_ok [of demo_ctx demo_runner "[]"
        "(wrksrc demo_ctx)(''/builddir/sbctl-0.12/docs/sbctl.8'' \<mapsto> ''.TH SBCTL 8'')" demo_script])
    (simp_all add: demo_defs)

theorem sbctl_post_build_man_fails_witness:
  "sbctl_post_build man_broken_runner demo_ctx =
     Inl (CommandFailed [''gmake'', ''man''] 2,
          demo_ctx\<lparr>wrksrc := wrksrc demo_ctx, cmd_log := cmd_log demo_ctx @ [[''gmake'', ''man'']]\<rparr>)"
  by (rule sbctl_post_build_man_fails [of man_broken_runner demo_ctx 2 "[]" "wrksrc demo_ctx"])
    (simp_all add: demo_defs)

theorem sbctl_post_build_zsh_fails_witness:
  "sbctl_post_build zsh_broken_runner demo_ctx =
     Inl (CommandFailed (sbctl_completion_cmd demo_ctx ''zsh'') 1,
          demo_ctx\<lparr>wrksrc := ((wrksrc demo_ctx)(''/builddir/sbctl-0.12/docs/sbctl.8'' \<mapsto> ''.TH SBCTL 8''))(
                         sbctl_completion_file demo_ctx ''bash'' \<mapsto> demo_script ''bash'',
                         sbctl_completion_file demo_ctx ''zsh'' \<mapsto> ''#comp''),
            cmd_log := cmd_log demo_ctx @ [[''gmake'', ''man''],
              sbctl_completion_cmd demo_ctx ''bash'', sbctl_completion_cmd demo_ctx ''zsh'']\<rparr>)"
  by (rule sbctl_post_build_zsh_fails [of demo_ctx zsh_broken_runner "[]"
        "(wrksrc demo_ctx)(''/builddir/sbctl-0.12/docs/sbctl.8'' \<mapsto> ''.TH SBCTL 8'')"
        "demo_script ''bash''" 1 "''#comp''"])
    (simp_all add: demo_defs)

theorem sbctl_post_install_ok_witness:
  "sbctl_post_install demo_runner demo_built =
     Inr (demo_built\<lparr>destdir := (destdir demo_built)(''usr/share/man/man8/sbctl.8'' \<mapsto> ''.TH SBCTL 8'',
            ''usr/share/bash-completion/completions/sbctl'' \<mapsto> demo_script ''bash'',
            ''usr/share/zsh/site-functions/_sbctl'' \<mapsto> demo_script ''zsh'',
            ''usr/share/fish/vendor_completions.d/sbctl.fish'' \<mapsto> demo_script ''fish'',
            ''usr/share/licenses/sbctl/LICENSE'' \<mapsto> ''MIT License'')\<rparr>)"
  by (rule sbctl_post_install_ok [of demo_built "''.TH SBCTL 8''" "demo_script ''bash''"
        "demo_script ''zsh''" "demo_script ''fish''" "''MIT License''" demo_runner])
    (simp_all add: demo_defs)

theorem sbctl_post_install_fails_witness:
  "sbctl_post_install demo_runner demo_ctx = Inl (MissingFile ''docs/sbctl.8'', demo_ctx) \<and>
   (\<exists>f \<in> set [''docs/sbctl.8'', ''sbctl.bash'', ''sbctl.zsh'', ''sbctl.fish'', ''LICENSE''].
      MissingFile ''docs/sbctl.8'' = MissingFile f \<and> wrksrc demo_ctx (cwd demo_ctx @ ''/'' @ f) = None) \<and>
   wrksrc demo_ctx = wrksrc demo_ctx \<and> cmd_log demo_ctx = cmd_log demo_ctx"
proof -
  have h: "sbctl_post_install demo_runner demo_ctx = Inl (MissingFile ''docs/sbctl.8'', demo_ctx)"
    by (simp add: sbctl_post_install_def sbctl_post_install_calls_def install_man_def
        install_to_def sbctl_install_dests demo_defs)
  show ?thesis by (rule conjI [OF h sbctl_post_install_fails [OF h]])
qed

theorem sbctl_distfile_witness:
  "basename (sbctl_source ''https://github.com/Foxboron/sbctl'' ''0.12'' ''sbctl'') =
     ''sbctl'' @ ''-'' @ ''0.12'' @ ''.tar.gz''"
  by (rule sbctl_distfile) simp_all

end
