(* ===== verification/Pipeline.thy ===== *)
theory Pipeline
  imports Template BuildContext "HOL-Library.Sublist"
begin

text \<open>
  The host's pipeline for one template (spec sections 2, 4.2 and 7), modelled
  from the spec: fetch and verify the source archive, run the build style's
  build step, the \<open>post_build\<close> hook, the build style's install step, the
  \<open>post_install\<close> hook, and package. A template enters as a \<open>recipe\<close>: its
  metadata and the hooks its module defines (\<open>None\<close> where it defines none, in
  which case the host does nothing there). The build style's own steps are
  parameters, like the external programs. The steps form an \<open>inductive\<close>
  relation over pipeline states; any failure moves to \<open>Failed\<close>, from which
  nothing continues. Each stage entered is recorded in \<open>stages\<close>.
\<close>

section \<open>Pipeline states and steps\<close>

datatype phase = Start | Fetched | Built | PostBuilt | Installed | PostInstalled | Packaged
  | Failed error

type_synonym hook = "runner \<Rightarrow> ctx \<Rightarrow> ctx outcome"

record recipe =
  rtemplate :: template
  rbuild :: hook
  rinstall :: hook
  rpost_build :: "hook option"
  rpost_install :: "hook option"

record pstate =
  phase :: phase
  pctx :: ctx
  stages :: "string list"

definition pipeline_init :: "ctx \<Rightarrow> pstate" where
  "pipeline_init c = \<lparr>phase = Start, pctx = c, stages = []\<rparr>"

text \<open>A hook the module does not define is the host's default: nothing.\<close>

definition run_hook :: "hook option \<Rightarrow> runner \<Rightarrow> ctx \<Rightarrow> ctx outcome" where
  "run_hook h rn c = (case h of None \<Rightarrow> Inr c | Some f \<Rightarrow> f rn c)"

text \<open>Enter stage \<open>name\<close>; its outcome decides the next phase.\<close>

definition advance :: "phase \<Rightarrow> string \<Rightarrow> ctx outcome \<Rightarrow> pstate \<Rightarrow> pstate" where
  "advance ph name r s =
     (case r of
        Inl (e, c) \<Rightarrow> s\<lparr>phase := Failed e, pctx := c, stages := stages s @ [name]\<rparr>
      | Inr c \<Rightarrow> s\<lparr>phase := ph, pctx := c, stages := stages s @ [name]\<rparr>)"

text \<open>\<open>h\<close> is the hash of the archive the fetch obtained.\<close>

inductive pipeline_step :: "runner \<Rightarrow> recipe \<Rightarrow> string \<Rightarrow> pstate \<Rightarrow> pstate \<Rightarrow> bool"
  for rn r h where
  fetch_ok: "phase s = Start \<Longrightarrow> h = sha256 (rtemplate r) \<Longrightarrow>
    pipeline_step rn r h s (s\<lparr>phase := Fetched, stages := stages s @ [''fetch'']\<rparr>)"
| fetch_bad: "phase s = Start \<Longrightarrow> h \<noteq> sha256 (rtemplate r) \<Longrightarrow>
    pipeline_step rn r h s (s\<lparr>phase := Failed ChecksumMismatch, stages := stages s @ [''fetch'']\<rparr>)"
| build: "phase s = Fetched \<Longrightarrow>
    pipeline_step rn r h s (advance Built ''build'' (rbuild r rn (pctx s)) s)"
| post_build: "phase s = Built \<Longrightarrow>
    pipeline_step rn r h s (advance PostBuilt ''post_build'' (run_hook (rpost_build r) rn (pctx s)) s)"
| install: "phase s = PostBuilt \<Longrightarrow>
    pipeline_step rn r h s (advance Installed ''install'' (rinstall r rn (pctx s)) s)"
| post_install: "phase s = Installed \<Longrightarrow>
    pipeline_step rn r h s (advance PostInstalled ''post_install'' (run_hook (rpost_install r) rn (pctx s)) s)"
| package: "phase s = PostInstalled \<Longrightarrow>
    pipeline_step rn r h s (s\<lparr>phase := Packaged, stages := stages s @ [''package'']\<rparr>)"

inductive reachable :: "runner \<Rightarrow> recipe \<Rightarrow> string \<Rightarrow> ctx \<Rightarrow> pstate \<Rightarrow> bool"
  for rn r h c0 where
  init: "reachable rn r h c0 (pipeline_init c0)"
| step: "reachable rn r h c0 s \<Longrightarrow> pipeline_step rn r h s s' \<Longrightarrow> reachable rn r h c0 s'"

inductive_cases pipeline_step_FailedE: "pipeline_step rn r h s s'"

text \<open>
  The same steps as a function: the successor of a state, \<open>None\<close> in the
  terminal phases. It is what the host executes; \<open>pipeline_step_iff\<close> shows
  it agrees with the relation.
\<close>

definition pipeline_next :: "runner \<Rightarrow> recipe \<Rightarrow> string \<Rightarrow> pstate \<Rightarrow> pstate option" where
  "pipeline_next rn r h s =
     (case phase s of
        Start \<Rightarrow> Some (if h = sha256 (rtemplate r)
                        then s\<lparr>phase := Fetched, stages := stages s @ [''fetch'']\<rparr>
                        else s\<lparr>phase := Failed ChecksumMismatch, stages := stages s @ [''fetch'']\<rparr>)
      | Fetched \<Rightarrow> Some (advance Built ''build'' (rbuild r rn (pctx s)) s)
      | Built \<Rightarrow> Some (advance PostBuilt ''post_build'' (run_hook (rpost_build r) rn (pctx s)) s)
      | PostBuilt \<Rightarrow> Some (advance Installed ''install'' (rinstall r rn (pctx s)) s)
      | Installed \<Rightarrow>
          Some (advance PostInstalled ''post_install'' (run_hook (rpost_install r) rn (pctx s)) s)
      | PostInstalled \<Rightarrow> Some (s\<lparr>phase := Packaged, stages := stages s @ [''package'']\<rparr>)
      | Packaged \<Rightarrow> None
      | Failed e \<Rightarrow> None)"

text \<open>At most \<open>n\<close> steps, stopping early in a terminal phase.\<close>

fun pipeline_run :: "runner \<Rightarrow> recipe \<Rightarrow> string \<Rightarrow> nat \<Rightarrow> pstate \<Rightarrow> pstate" where
  "pipeline_run rn r h 0 s = s"
| "pipeline_run rn r h (Suc n) s =
     (case pipeline_next rn r h s of None \<Rightarrow> s | Some s' \<Rightarrow> pipeline_run rn r h n s')"

text \<open>How many steps a phase is from the end of the pipeline.\<close>

fun remaining :: "phase \<Rightarrow> nat" where
  "remaining Start = 6"
| "remaining Fetched = 5"
| "remaining Built = 4"
| "remaining PostBuilt = 3"
| "remaining Installed = 2"
| "remaining PostInstalled = 1"
| "remaining Packaged = 0"
| "remaining (Failed e) = 0"

section \<open>The stage order\<close>

definition stage_order :: "string list" where
  "stage_order = [''fetch'', ''build'', ''post_build'', ''install'', ''post_install'', ''package'']"

fun phase_rank :: "phase \<Rightarrow> nat" where
  "phase_rank Start = 0"
| "phase_rank Fetched = 1"
| "phase_rank Built = 2"
| "phase_rank PostBuilt = 3"
| "phase_rank Installed = 4"
| "phase_rank PostInstalled = 5"
| "phase_rank Packaged = 6"
| "phase_rank (Failed e) = 0"

text \<open>
  The stages entered are the first ones of the host's order: as many as the
  phase's rank, or, after a failure, a non-empty prefix ending at the stage
  that failed.
\<close>

definition stages_inv :: "pstate \<Rightarrow> bool" where
  "stages_inv s \<longleftrightarrow>
     (case phase s of
        Failed e \<Rightarrow> stages s \<noteq> [] \<and> prefix (stages s) stage_order
      | ph \<Rightarrow> stages s = take (phase_rank ph) stage_order)"

lemma advance_stages_inv:
  assumes "stages s = take k stage_order" and "k < 6" and "stage_order ! k = name"
    and "phase_rank ph = Suc k" and "\<forall>e. ph \<noteq> Failed e"
  shows "stages_inv (advance ph name r s)"
proof -
  have "k < length stage_order"
    using assms(2) by (simp add: stage_order_def)
  then have take: "stages s @ [name] = take (Suc k) stage_order"
    using assms(1,3) by (simp add: take_Suc_conv_app_nth)
  have "prefix (take (Suc k) stage_order) stage_order"
    by (rule take_is_prefix)
  with take assms(4,5) show ?thesis
    by (cases ph) (auto simp: advance_def stages_inv_def eval_nat_numeral split: sum.splits prod.splits)
qed

lemma pipeline_step_stages_inv:
  assumes "pipeline_step rn r h s s'" and "stages_inv s"
  shows "stages_inv s'"
  using assms
proof (induction rule: pipeline_step.induct)
  case (fetch_ok s)
  then show ?case by (simp add: stages_inv_def stage_order_def)
next
  case (fetch_bad s)
  then show ?case by (simp add: stages_inv_def stage_order_def)
next
  case (build s)
  then show ?case
    by (intro advance_stages_inv [where k = 1]) (simp_all add: stages_inv_def stage_order_def)
next
  case (post_build s)
  then show ?case
    by (intro advance_stages_inv [where k = 2]) (simp_all add: stages_inv_def stage_order_def)
next
  case (install s)
  then show ?case
    by (intro advance_stages_inv [where k = 3]) (simp_all add: stages_inv_def stage_order_def)
next
  case (post_install s)
  then show ?case
    by (intro advance_stages_inv [where k = 4]) (simp_all add: stages_inv_def stage_order_def)
next
  case (package s)
  then show ?case by (simp add: stages_inv_def stage_order_def)
qed

lemma reachable_stages_inv: "reachable rn r h c0 s \<Longrightarrow> stages_inv s"
proof (induction rule: reachable.induct)
  case init
  show ?case by (simp add: pipeline_init_def stages_inv_def)
next
  case (step s s')
  then show ?case by (blast intro: pipeline_step_stages_inv)
qed

section \<open>Terminal phases and the checksum\<close>

text \<open>Nothing continues after a failure or after packaging.\<close>

lemma pipeline_step_terminal:
  assumes "pipeline_step rn r h s s'"
  shows "phase s \<noteq> Packaged \<and> (\<forall>e. phase s \<noteq> Failed e)"
  using assms by (cases rule: pipeline_step.cases) auto

text \<open>
  With an archive whose hash is not the template's checksum, the pipeline
  stops at the fetch: no build step, no hook, and the build context is the one
  it started with.
\<close>

lemma reachable_bad_checksum:
  assumes "reachable rn r h c0 s" and "h \<noteq> sha256 (rtemplate r)"
  shows "(phase s = Start \<and> stages s = [] \<or>
          phase s = Failed ChecksumMismatch \<and> stages s = [''fetch'']) \<and> pctx s = c0"
  using assms
proof (induction rule: reachable.induct)
  case init
  show ?case by (simp add: pipeline_init_def)
next
  case (step s s')
  from step.hyps(2) step.IH step.prems show ?case
    by (cases rule: pipeline_step.cases) auto
qed

section \<open>The step function\<close>

lemma pipeline_step_iff:
  "pipeline_step rn r h s s' \<longleftrightarrow> pipeline_next rn r h s = Some s'"
proof
  assume "pipeline_step rn r h s s'"
  then show "pipeline_next rn r h s = Some s'"
    by (cases rule: pipeline_step.cases) (simp_all add: pipeline_next_def)
next
  assume next_eq: "pipeline_next rn r h s = Some s'"
  show "pipeline_step rn r h s s'"
  proof (cases "phase s")
    case Start
    with next_eq show ?thesis
      by (cases "h = sha256 (rtemplate r)")
        (auto simp: pipeline_next_def intro: pipeline_step.intros)
  qed (use next_eq in \<open>auto simp: pipeline_next_def intro: pipeline_step.intros\<close>)
qed

lemma reachable_run:
  "reachable rn r h c0 s \<Longrightarrow> reachable rn r h c0 (pipeline_run rn r h n s)"
proof (induction n arbitrary: s)
  case 0
  then show ?case by simp
next
  case (Suc n)
  show ?case
  proof (cases "pipeline_next rn r h s")
    case None
    with Suc.prems show ?thesis by simp
  next
    case (Some s')
    with Suc.prems have "reachable rn r h c0 s'"
      by (blast intro: reachable.step pipeline_step_iff [THEN iffD2])
    with Some Suc.IH show ?thesis by simp
  qed
qed

text \<open>Every step brings the pipeline strictly closer to its end.\<close>

lemma pipeline_next_remaining:
  "pipeline_next rn r h s = Some s' \<Longrightarrow> remaining (phase s') < remaining (phase s)"
  by (cases "phase s")
    (auto simp: pipeline_next_def advance_def split: if_splits sum.splits prod.splits)

lemma pipeline_next_None:
  "pipeline_next rn r h s = None \<longleftrightarrow> remaining (phase s) = 0"
  by (cases "phase s") (simp_all add: pipeline_next_def)

lemma pipeline_run_terminal:
  "remaining (phase s) \<le> n \<Longrightarrow> pipeline_next rn r h (pipeline_run rn r h n s) = None"
proof (induction n arbitrary: s)
  case 0
  then show ?case by (simp add: pipeline_next_None)
next
  case (Suc n)
  show ?case
  proof (cases "pipeline_next rn r h s")
    case None
    then show ?thesis by simp
  next
    case (Some s')
    with Suc.prems have "remaining (phase s') \<le> n"
      using pipeline_next_remaining [OF Some] by simp
    with Some Suc.IH show ?thesis by simp
  qed
qed

lemma stages_inv_prefix: "stages_inv s \<Longrightarrow> prefix (stages s) stage_order"
  by (cases "phase s") (auto simp: stages_inv_def take_is_prefix)

end
