(* ===== verification/Recipes.thy ===== *)
theory Recipes
  imports Scenarios Pipeline
begin

text \<open>
  Each template module as the host's pipeline consumes it: its metadata and
  the hooks it defines. sbctl defines both \<open>post_build\<close> and
  \<open>post_install\<close>; neovim defines \<open>post_install\<close> only. The build style's
  build and install steps (go for sbctl, cmake for neovim) are host code and
  stay parameters.
\<close>

definition sbctl_recipe :: "hook \<Rightarrow> hook \<Rightarrow> recipe" where
  "sbctl_recipe bs bi =
     \<lparr>rtemplate = sbctl_template, rbuild = bs, rinstall = bi,
      rpost_build = Some sbctl_post_build, rpost_install = Some sbctl_post_install\<rparr>"

definition neovim_recipe :: "string \<Rightarrow> hook \<Rightarrow> hook \<Rightarrow> recipe" where
  "neovim_recipe arch bs bi =
     \<lparr>rtemplate = neovim_template arch, rbuild = bs, rinstall = bi,
      rpost_build = None, rpost_install = Some neovim_post_install\<rparr>"

text \<open>A build style step that leaves the build unchanged, for the scenarios.\<close>

definition keep_step :: hook where
  "keep_step rn c = Inr c"

text \<open>
  neovim's pipeline with its own archive: after build and install steps that
  succeed, the host's default \<open>post_build\<close> (neovim defines none) changes
  nothing, \<open>post_install\<close> runs on the context the install step produced, and
  its outcome decides between packaging and failing in \<open>post_install\<close>.
\<close>

lemma neovim_run:
  assumes "bs rn c0 = Inr c1" and "bi rn c1 = Inr c2"
  shows "pipeline_run rn (neovim_recipe arch bs bi) (sha256 (neovim_template arch)) 6 (pipeline_init c0) =
         (case neovim_post_install rn c2 of
            Inl (e, c3) \<Rightarrow> \<lparr>phase = Failed e, pctx = c3,
                            stages = [''fetch'', ''build'', ''post_build'', ''install'', ''post_install'']\<rparr>
          | Inr c3 \<Rightarrow> \<lparr>phase = Packaged, pctx = c3,
                       stages = [''fetch'', ''build'', ''post_build'', ''install'', ''post_install'', ''package'']\<rparr>)"
  using assms
  by (simp add: pipeline_next_def pipeline_init_def advance_def run_hook_def neovim_recipe_def
      eval_nat_numeral split: sum.split prod.split)

lemmas neovim_licence_defs = neovim_post_install_def neovim_post_install_calls_def
  install_license_def install_to_def license_dest_def basename_def

text \<open>
  C16. neovim end to end, on every architecture, for every runner and every
  build style's build and install steps that succeed: when the fetched archive
  has neovim's checksum and the tree the install step leaves holds
  \<open>LICENSE.txt\<close>, the pipeline runs all six stages, packages, and the
  package tree is the install step's with exactly the licence added.
\<close>

theorem neovim_pipeline_packages:
  assumes "bs rn c0 = Inr c1" and "bi rn c1 = Inr c2"
    and "wrksrc c2 (cwd c2 @ ''/LICENSE.txt'') = Some l"
  shows "pipeline_run rn (neovim_recipe arch bs bi) (sha256 (neovim_template arch)) 6 (pipeline_init c0) =
         \<lparr>phase = Packaged,
          pctx = c2\<lparr>destdir := (destdir c2)(''usr/share/licenses/'' @ ctx_pkgname c2 @ ''/LICENSE.txt'' \<mapsto> l)\<rparr>,
          stages = [''fetch'', ''build'', ''post_build'', ''install'', ''post_install'', ''package'']\<rparr>"
  using assms by (simp add: neovim_run neovim_licence_defs)

text \<open>
  C17. A failing command fails the build with that command's status and
  nothing after it runs: when sbctl's build step succeeds but \<open>gmake man\<close>
  exits with a non-zero status, the pipeline stops in \<open>post_build\<close> with
  that command and status, having run no completion command, installed
  nothing and never packaged; what \<open>gmake man\<close> left in the build tree
  stays there.
\<close>

theorem sbctl_pipeline_man_fails:
  assumes build: "bs rn c0 = Inr c1"
    and man: "rn (cwd c1) [''gmake'', ''man''] (wrksrc c1) = (st, out, t)" and st: "st \<noteq> 0"
  shows "let s = pipeline_run rn (sbctl_recipe bs bi) (sha256 sbctl_template) 6 (pipeline_init c0)
         in phase s = Failed (CommandFailed [''gmake'', ''man''] st) \<and>
            stages s = [''fetch'', ''build'', ''post_build''] \<and>
            cmd_log (pctx s) = cmd_log c1 @ [[''gmake'', ''man'']] \<and>
            wrksrc (pctx s) = t \<and> destdir (pctx s) = destdir c1"
  using assms
  by (simp add: Let_def pipeline_next_def pipeline_init_def advance_def run_hook_def
      sbctl_recipe_def eval_nat_numeral sbctl_hook_defs do_cmd_def)

text \<open>
  C18. A missing licence fails neovim's build in \<open>post_install\<close> with the
  missing path, on every architecture, for every runner and every build and
  install step that succeed: the pipeline has run five stages, never packages,
  and the build stops on the context the install step produced.
\<close>

theorem neovim_pipeline_licence_missing:
  assumes "bs rn c0 = Inr c1" and "bi rn c1 = Inr c2"
    and "wrksrc c2 (cwd c2 @ ''/LICENSE.txt'') = None"
  shows "pipeline_run rn (neovim_recipe arch bs bi) (sha256 (neovim_template arch)) 6 (pipeline_init c0) =
         \<lparr>phase = Failed (MissingFile ''LICENSE.txt''), pctx = c2,
          stages = [''fetch'', ''build'', ''post_build'', ''install'', ''post_install'']\<rparr>"
  using assms by (simp add: neovim_run neovim_licence_defs)

section \<open>Witnesses\<close>

theorem neovim_pipeline_packages_witness:
  "pipeline_run demo_runner (neovim_recipe ''riscv64'' keep_step keep_step)
     (sha256 (neovim_template ''riscv64'')) 6 (pipeline_init neovim_demo_ctx) =
   \<lparr>phase = Packaged,
    pctx = neovim_demo_ctx\<lparr>destdir := [''usr/share/licenses/neovim/LICENSE.txt'' \<mapsto> ''Apache License'']\<rparr>,
    stages = [''fetch'', ''build'', ''post_build'', ''install'', ''post_install'', ''package'']\<rparr>"
  using neovim_pipeline_packages [of keep_step demo_runner neovim_demo_ctx neovim_demo_ctx keep_step
      neovim_demo_ctx "''Apache License''" "''riscv64''"]
  by (simp add: keep_step_def demo_defs)

theorem sbctl_pipeline_man_fails_witness:
  "let s = pipeline_run man_broken_runner (sbctl_recipe keep_step keep_step) (sha256 sbctl_template) 6
             (pipeline_init demo_ctx)
   in phase s = Failed (CommandFailed [''gmake'', ''man''] 2) \<and>
      stages s = [''fetch'', ''build'', ''post_build''] \<and>
      cmd_log (pctx s) = [[''gmake'', ''man'']] \<and>
      wrksrc (pctx s) = wrksrc demo_ctx \<and> destdir (pctx s) = Map.empty"
  using sbctl_pipeline_man_fails [of keep_step man_broken_runner demo_ctx demo_ctx 2 "[]" "wrksrc demo_ctx"
      keep_step]
  by (simp add: keep_step_def demo_defs)

theorem neovim_pipeline_licence_missing_witness:
  "pipeline_run demo_runner (neovim_recipe ''x86_64'' keep_step keep_step)
     (sha256 (neovim_template ''x86_64'')) 6 (pipeline_init demo_ctx) =
   \<lparr>phase = Failed (MissingFile ''LICENSE.txt''), pctx = demo_ctx,
    stages = [''fetch'', ''build'', ''post_build'', ''install'', ''post_install'']\<rparr>"
  using neovim_pipeline_licence_missing [of keep_step demo_runner demo_ctx demo_ctx keep_step demo_ctx
      "''x86_64''"]
  by (simp add: keep_step_def demo_defs)

end
