(* ===== verification/NeovimSpec.thy ===== *)
theory NeovimSpec
  imports Neovim
begin

text \<open>
  The contract the spec (section 2) states for the architecture switch: a
  match over a finite architecture enum (\<open>aarch64\<close>, \<open>ppc64le\<close>,
  \<open>x86_64\<close> and every other architecture) in which each arm is a fixed
  incremental delta to \<open>configure_args\<close>, \<open>hostmakedepends\<close> and
  \<open>makedepends\<close>. This theory writes that contract as a reference
  definition (the enum, the delta, the table from one to the other) and
  proves that the template's string \<open>match\<close> implements it.
\<close>

section \<open>The architecture enum\<close>

datatype arch = Aarch64 | Ppc64le | X86_64 | OtherArch string

text \<open>The enum value of the name the host reports for an architecture.\<close>

definition arch_of :: "string \<Rightarrow> arch" where
  "arch_of s =
     (if s = ''aarch64'' then Aarch64 else if s = ''ppc64le'' then Ppc64le
      else if s = ''x86_64'' then X86_64 else OtherArch s)"

section \<open>Deltas\<close>

record delta =
  d_configure_args :: "string list"
  d_hostmakedepends :: "string list"
  d_makedepends :: "string list"

definition apply_delta :: "delta \<Rightarrow> template \<Rightarrow> template" where
  "apply_delta d g =
     g\<lparr>configure_args := configure_args g @ d_configure_args d,
       hostmakedepends := hostmakedepends g @ d_hostmakedepends d,
       makedepends := makedepends g @ d_makedepends d\<rparr>"

definition luajit_delta :: delta where
  "luajit_delta =
     \<lparr>d_configure_args = [''-DPREFER_LUA=OFF''], d_hostmakedepends = [''luajit''],
      d_makedepends = [''luajit-devel'']\<rparr>"

definition lua51_delta :: delta where
  "lua51_delta =
     \<lparr>d_configure_args = [''-DPREFER_LUA=ON''], d_hostmakedepends = [''lua5.1''],
      d_makedepends = [''lua5.1-devel'']\<rparr>"

text \<open>The table of the contract: one delta per constructor of the enum.\<close>

fun neovim_delta :: "arch \<Rightarrow> delta" where
  "neovim_delta Aarch64 = luajit_delta"
| "neovim_delta Ppc64le = luajit_delta"
| "neovim_delta X86_64 = luajit_delta"
| "neovim_delta (OtherArch s) = lua51_delta"

text \<open>
  C15. The template's \<open>match\<close> on the architecture's name is the contract's
  table: for every name and every globals, it appends the delta the enum
  assigns to that architecture.
\<close>

theorem neovim_match_delta:
  "neovim_arch_match s g = apply_delta (neovim_delta (arch_of s)) g"
  by (simp add: neovim_match_defs apply_delta_def luajit_delta_def lua51_delta_def arch_of_def)

end
