(* ===== verification/Checksum.thy ===== *)
theory Checksum
  imports Template "HOL-Library.Word"
begin

text \<open>
  The host's checksum comparison (spec section 2: \<open>sha256\<close> must match the
  fetched source archive). The host hashes the archive with SHA-256 and compares
  the digest, printed by \<open>hashlib\<close>'s \<open>hexdigest()\<close> as 64 lowercase
  hexadecimal digits, with the template's \<open>sha256\<close> string. A digest is a
  \<open>256 word\<close>; \<open>hexdigest\<close> prints it most significant nibble first, and
  \<open>digest_of_hex\<close> reads such a string back. The round trips between the two
  show that a template's checksum string names exactly one digest, and that a
  64-digit string read as a 256-bit word does not wrap around.
\<close>

section \<open>Hexadecimal digits\<close>

definition hex_digits :: string where
  "hex_digits = ''0123456789abcdef''"

definition hex_char :: "nat \<Rightarrow> char" where
  "hex_char n = hex_digits ! n"

text \<open>The value of a digit; a character that is no digit reads as 0.\<close>

definition hex_val :: "char \<Rightarrow> nat" where
  "hex_val c = (let i = length (takeWhile (\<lambda>d. d \<noteq> c) hex_digits) in if i < 16 then i else 0)"

definition is_lower_hex :: "char \<Rightarrow> bool" where
  "is_lower_hex c \<longleftrightarrow> c \<in> set hex_digits"

section \<open>Printing and reading digests\<close>

text \<open>The last \<open>k\<close> hexadecimal digits of \<open>n\<close>, most significant first.\<close>

fun hex_of_nat :: "nat \<Rightarrow> nat \<Rightarrow> string" where
  "hex_of_nat 0 n = []"
| "hex_of_nat (Suc k) n = hex_of_nat k (n div 16) @ [hex_char (n mod 16)]"

definition nat_of_hex :: "string \<Rightarrow> nat" where
  "nat_of_hex s = foldl (\<lambda>a c. 16 * a + hex_val c) 0 s"

text \<open>\<open>hashlib.sha256(...).hexdigest()\<close>: 64 lowercase digits.\<close>

definition hexdigest :: "256 word \<Rightarrow> string" where
  "hexdigest d = hex_of_nat 64 (unat d)"

definition digest_of_hex :: "string \<Rightarrow> 256 word" where
  "digest_of_hex s = word_of_nat (nat_of_hex s)"

section \<open>Digits\<close>

lemma hex_digits_facts: "distinct hex_digits" "length hex_digits = 16"
  by (simp_all add: hex_digits_def)

lemma hex_val_less [simp]: "hex_val c < 16"
  by (simp add: hex_val_def Let_def)

lemma hex_val_hex_char [simp]: "n < 16 \<Longrightarrow> hex_val (hex_char n) = n"
  by (simp add: hex_val_def hex_char_def takeWhile_index hex_digits_facts)

lemma is_lower_hex_hex_char [simp]: "n < 16 \<Longrightarrow> is_lower_hex (hex_char n)"
  by (simp add: is_lower_hex_def hex_char_def nth_mem hex_digits_facts)

lemma hex_char_hex_val [simp]: "is_lower_hex c \<Longrightarrow> hex_char (hex_val c) = c"
  using takeWhile_index_less [of c hex_digits]
  by (simp add: is_lower_hex_def hex_char_def hex_val_def takeWhile_index_nth hex_digits_facts)

lemma is_lower_hex_digit: "is_lower_hex c \<Longrightarrow> is_hex_digit c"
  by (auto simp: is_lower_hex_def is_hex_digit_def hex_digits_def)

section \<open>Round trips\<close>

lemma length_hex_of_nat [simp]: "length (hex_of_nat k n) = k"
  by (induction k arbitrary: n) simp_all

lemma hex_of_nat_lower [simp]: "list_all is_lower_hex (hex_of_nat k n)"
  by (induction k arbitrary: n) simp_all

lemma nat_of_hex_snoc [simp]: "nat_of_hex (s @ [c]) = 16 * nat_of_hex s + hex_val c"
  by (simp add: nat_of_hex_def)

lemma nat_of_hex_Nil [simp]: "nat_of_hex [] = 0"
  by (simp add: nat_of_hex_def)

lemma nat_of_hex_hex_of_nat: "nat_of_hex (hex_of_nat k n) = n mod 16 ^ k"
  by (induction k arbitrary: n) (simp_all add: mod_mult2_eq)

lemma nat_of_hex_less: "nat_of_hex s < 16 ^ length s"
proof (induction s rule: rev_induct)
  case (snoc c s)
  have "16 * nat_of_hex s + hex_val c < 16 * (nat_of_hex s + 1)"
    using hex_val_less [of c] by simp
  also have "\<dots> \<le> 16 * 16 ^ length s"
    using snoc.IH by simp
  finally show ?case by simp
qed simp

lemma hex_of_nat_snoc:
  "v < 16 \<Longrightarrow> hex_of_nat (Suc k) (16 * a + v) = hex_of_nat k a @ [hex_char v]"
  by simp

lemma hex_of_nat_nat_of_hex:
  "list_all is_lower_hex s \<Longrightarrow> hex_of_nat (length s) (nat_of_hex s) = s"
  by (induction s rule: rev_induct) (simp_all del: hex_of_nat.simps(2) add: hex_of_nat_snoc)

section \<open>Digests\<close>

lemma digest_of_hex_hexdigest [simp]: "digest_of_hex (hexdigest d) = d"
proof -
  have "unat d < 2 ^ LENGTH(256)"
    by (rule unsigned_less)
  then show ?thesis
    by (simp add: digest_of_hex_def hexdigest_def nat_of_hex_hex_of_nat)
qed

lemma unat_digest_of_hex:
  "length s = 64 \<Longrightarrow> unat (digest_of_hex s) = nat_of_hex s"
  using nat_of_hex_less [of s]
  by (simp add: digest_of_hex_def unat_of_nat)

lemma hexdigest_digest_of_hex:
  "length s = 64 \<Longrightarrow> list_all is_lower_hex s \<Longrightarrow> hexdigest (digest_of_hex s) = s"
  using hex_of_nat_nat_of_hex [of s] by (simp add: hexdigest_def unat_digest_of_hex)

lemma hexdigest_valid_len: "length (hexdigest d) = 64 \<and> list_all is_lower_hex (hexdigest d)"
  by (simp add: hexdigest_def)

lemma hexdigest_eq_iff:
  "hexdigest d = s \<longleftrightarrow> length s = 64 \<and> list_all is_lower_hex s \<and> d = digest_of_hex s"
  using hexdigest_valid_len [of d] hexdigest_digest_of_hex [of s] by auto

text \<open>The strings \<open>hexdigest()\<close> prints are the 64-digit lowercase ones.\<close>

lemma hexdigest_exists:
  "(\<exists>d. hexdigest d = s) \<longleftrightarrow> length s = 64 \<and> list_all is_lower_hex s"
  by (auto simp: hexdigest_eq_iff)

text \<open>Every printed digest passes the host's validation of a \<open>sha256\<close> field.\<close>

lemma hexdigest_valid: "valid_sha256 (hexdigest d)"
  using hex_of_nat_lower [of 64 "unat d"]
  by (simp add: valid_sha256_def hexdigest_def list_all_iff is_lower_hex_digit)

text \<open>
  The validation accepts uppercase digits, the digest never prints them: a
  valid \<open>sha256\<close> field written in uppercase matches no archive.
\<close>

lemma uppercase_sha256_never_matches:
  "valid_sha256 (replicate 64 CHR ''A'') \<and> (\<forall>d. hexdigest d \<noteq> replicate 64 CHR ''A'')"
  by (simp add: valid_sha256_def is_hex_digit_def hexdigest_eq_iff is_lower_hex_def hex_digits_def
      list_all_iff)

end
