(* ===== verification/Spec2Isabelle.thy ===== *)
theory Spec2Isabelle
  imports Recipes NeovimSpec Checksum
begin

text \<open>
  \<^bold>\<open>A verification library for the cports templates sbctl and neovim.\<close>

  \<^bold>\<open>The program.\<close> The repository holds two package templates of a
  source-based build system, \<open>src/contrib/sbctl/template.py\<close> and
  \<open>src/contrib/neovim/template.py\<close>. Each is a Python module whose top level
  assigns the package metadata (name, version, revision, build style, dependency
  lists, source URL, checksum, options) and whose functions \<open>post_build\<close> and
  \<open>post_install\<close> are hooks the host build system calls with a build context
  \<open>self\<close>. The neovim module also branches on the target architecture
  (\<open>match self.profile().arch\<close>) to choose LuaJIT or Lua 5.1. The host itself
  (validation, the build context, \<open>self.do\<close>, the install helpers) is not in
  the repository; the parts the templates call are modelled from the spec and
  marked so in the manifest.

  \<^bold>\<open>Theories.\<close>
  \<^item> \<open>Prelude\<close>: paths and file trees, the host's error values, the outcome
    type \<open>(error \<times> 's) + 's\<close> of a hook step (the error with the state the
    build stopped in, or the new state), \<open>and_then\<close>, and shared lemmas on
    \<open>basename\<close>, \<open>path_join\<close> and list positions.
  \<^item> \<open>Template\<close>: the record \<open>template\<close> of the module globals, the host's
    defaults for fields a module does not assign, and the host's validation
    (\<open>validate_template\<close>: non-empty name and version, a 64-digit hexadecimal
    \<open>sha256\<close>) with \<open>deps_distinct\<close>. Modelled from spec sections 3 and 7.
  \<^item> \<open>BuildContext\<close>: the context record \<open>ctx\<close> (package name, \<open>cwd\<close>,
    \<open>make_dir\<close>, build tree, package tree, command log); \<open>do_cmd\<close> for
    \<open>self.do\<close> (a non-zero exit stops the build, output goes to the opened
    file), \<open>open_write\<close> for \<open>open(p, "w")\<close>, the install helpers, and
    \<open>exec_calls\<close>, which runs a hook's calls in order and stops at the first
    failure. External programs are a parameter (\<open>runner\<close>): every lemma holds
    for every runner, and a runner appears as a hypothesis only where a statement
    is about what a given command does. Modelled from spec sections 4.2, 6 and 7.
  \<^item> \<open>Sbctl\<close>: \<open>sbctl_module\<close> (lines 1--16) with its lists (lines 5--9),
    the f-string \<open>sbctl_source\<close> (line 14), \<open>sbctl_post_build\<close> (lines
    19--48) and \<open>sbctl_post_install\<close> (lines 51--58), each hook as the list of
    calls its body makes. Lemmas C6--C11: the full result of a successful
    \<open>post_build\<close>, its two failure modes, the full result of
    \<open>post_install\<close>, that it can only fail for a missing file, and the archive
    name.
  \<^item> \<open>Neovim\<close>: the assigned lists, \<open>neovim_assign\<close> (lines 2--37),
    \<open>neovim_arch_match\<close> (lines 40--49) with its two arms
    \<open>neovim_luajit_case\<close> (lines 42--45) and \<open>neovim_lua51_case\<close> (lines
    47--49), \<open>neovim_module\<close>, and \<open>neovim_post_install\<close> (lines 52--53).
    Lemmas C1--C5 and C19: the Lua choice by architecture, exactly one Lua and
    one \<open>PREFER_LUA\<close> option, idempotence of the module, the frame of the
    switch, the licence install, and the archive name.
  \<^item> \<open>NeovimSpec\<close>: the spec's contract for the switch as a reference
    definition: the architecture enum \<open>arch\<close> (aarch64, ppc64le, x86_64,
    every other one), the incremental \<open>delta\<close> to the three lists and the table
    \<open>neovim_delta\<close>. Lemma C15: the string \<open>match\<close> equals the table, for
    every name and globals.
  \<^item> \<open>Checksum\<close>: how the host compares the fetched archive with
    \<open>sha256\<close>. A digest is a \<open>256 word\<close>; \<open>hexdigest\<close> prints it as
    \<open>hashlib\<close>'s \<open>hexdigest()\<close> does (64 lowercase digits, most significant
    first) and \<open>digest_of_hex\<close> reads it back. Lemmas: both round trips, that
    the printed strings are exactly the 64-digit lowercase ones, and that an
    uppercase checksum, which validation accepts, matches no digest.
  \<^item> \<open>Scenarios\<close>: concrete builds (a working directory, a build tree, runners
    that behave or fail at a chosen command) and the witnesses that apply each
    theorem with hypotheses there.
  \<^item> \<open>Pipeline\<close>: the host's pipeline for one template, modelled from the
    spec: an \<open>inductive\<close> step relation \<open>pipeline_step\<close> over states of a
    phase, a build context and the stages entered (fetch with the checksum
    check, build, \<open>post_build\<close>, install, \<open>post_install\<close>, package; any
    failure ends in \<open>Failed\<close>), the reachable states, and the same steps as a
    function \<open>pipeline_next\<close> with \<open>pipeline_step_iff\<close> relating the two.
    Lemmas about the host model alone: the stages entered are a prefix of the
    host's order, failure and packaging are terminal, a bad checksum stops at
    the fetch, and six steps end the pipeline (\<open>pipeline_run_terminal\<close>).
  \<^item> \<open>Recipes\<close>: each module with the hooks it defines as the pipeline
    consumes it (\<open>sbctl_recipe\<close>, \<open>neovim_recipe\<close>), for any build and
    install steps of its build style. Lemmas C16--C18: neovim's pipeline for
    every build and install step that succeed, packaging its licence or failing
    in \<open>post_install\<close> with the missing path; a failing \<open>gmake man\<close>
    stopping sbctl's pipeline in \<open>post_build\<close> with that command and status.
  \<^item> This theory: the properties spanning components: for any globals the host
    supplies, both templates pass validation with a checksum a digest can print
    (C12), their dependency lists are duplicate-free (C13), and sbctl's two
    hooks compose: what \<open>post_build\<close> generates is what \<open>post_install\<close>
    installs (C14).

  \<^bold>\<open>Correspondence.\<close> A module's top level is a function from the globals
  before it runs to the globals after (\<open>sbctl_module\<close>, \<open>neovim_module\<close>);
  the template the host reads is that function applied to
  \<open>template_defaults\<close>. A Python list is a HOL list and \<open>+=\<close> is \<open>@\<close>;
  strings are \<open>string\<close>. A hook is \<open>exec_calls\<close> over its calls; \<open>self.cwd /
  name\<close> is \<open>path_join\<close>; the build tree is keyed by absolute path and the
  package tree by the path below its root.

  \<^bold>\<open>Not modelled.\<close> The contents of the external programs (\<open>gmake\<close>, the
  sbctl binary, cmake, go), which are the runner parameter; fetching
  of the source archive and the SHA-256 compression function (the pipeline takes
  the fetched archive's printed digest as given; \<open>Checksum\<close> models how a
  digest is printed and compared, not how it is computed), and dependency resolution, which belong to
  the host; the build styles' own build and install steps, which are
  parameters of a recipe; build styles other than as a string field; the host
  building several templates at once (spec section 5): the spec fixes only that
  independent builds share no state, and a model of that makes their isolation
  hold by construction, so it says nothing about the templates; the host's reading of \<open>options\<close> (\<open>!check\<close>, \<open>!cross\<close>), whose
  semantics the spec leaves open (section 9), so \<open>options\<close> stays a list of
  strings the templates assign and the host does not interpret here. There are no loops in
  the templates: \<open>exec_calls\<close> recurses on the call list, and the pipeline
  driver \<open>pipeline_run\<close> takes a step bound, six being enough for any recipe
  because each step lowers \<open>remaining\<close>, which starts at six.

  \<^bold>\<open>Extent.\<close> Every statement of the two templates is modelled: the metadata
  of both modules field by field, neovim's \<open>match\<close> arm by arm, and every call
  of the three hooks. What remains outside is host code the repository does
  not contain; the parts of it the templates touch are modelled from the spec
  as far as the spec fixes their behaviour, and the build styles' configure,
  build and install commands stay parameters because the spec does not say
  what they run.
\<close>

section \<open>Properties of both templates\<close>


text \<open>
  C13. No dependency list of either template names a package twice, on any
  architecture.
\<close>

theorem templates_deps_distinct:
  "deps_distinct sbctl_template \<and> deps_distinct (neovim_template arch)"
  by (simp add: deps_distinct_def sbctl_template_def sbctl_module_def Let_def template_defaults_def
      sbctl_lists
      neovim_template_lists neovim_template_meta neovim_lists_lua neovim_lists)

section \<open>sbctl's hooks together\<close>

text \<open>
  C14. \<open>post_install\<close> installs what \<open>post_build\<close> generated: when
  \<open>gmake man\<close> leaves the man page at \<open>docs/sbctl.8\<close>, the licence is in the
  tree and the completion commands print their scripts, running the two hooks
  in the host's order succeeds and the package tree gains the man page, the
  three printed scripts and the licence at their install locations.
\<close>

theorem sbctl_build_then_install:
  assumes cwd: "take 1 (cwd c) = ''/''"
    and pkg: "ctx_pkgname c = ''sbctl''"
    and man: "rn (cwd c) [''gmake'', ''man''] (wrksrc c) = (0, m, t1)"
    and page: "t1 (cwd c @ ''/docs/sbctl.8'') = Some p"
    and lic: "t1 (cwd c @ ''/LICENSE'') = Some l"
    and comp: "\<forall>sh \<in> {''bash'', ''zsh'', ''fish''}. \<forall>t.
                 rn (cwd c) (sbctl_completion_cmd c sh) t = (0, script sh, t)"
  shows "\<exists>c1 c2. sbctl_post_build rn c = Inr c1 \<and> sbctl_post_install rn c1 = Inr c2 \<and>
           destdir c2 = (destdir c)(''usr/share/man/man8/sbctl.8'' \<mapsto> p,
             ''usr/share/bash-completion/completions/sbctl'' \<mapsto> script ''bash'',
             ''usr/share/zsh/site-functions/_sbctl'' \<mapsto> script ''zsh'',
             ''usr/share/fish/vendor_completions.d/sbctl.fish'' \<mapsto> script ''fish'',
             ''usr/share/licenses/sbctl/LICENSE'' \<mapsto> l)"
  using assms
  by (simp add: sbctl_hook_defs do_cmd_def open_write_def sbctl_post_install_def
      sbctl_post_install_calls_def install_man_def install_completion_def install_license_def
      install_to_def sbctl_install_dests)

theorem sbctl_build_then_install_witness:
  "\<exists>c1 c2. sbctl_post_build demo_runner demo_ctx = Inr c1 \<and>
     sbctl_post_install demo_runner c1 = Inr c2 \<and>
     destdir c2 = (destdir demo_ctx)(''usr/share/man/man8/sbctl.8'' \<mapsto> ''.TH SBCTL 8'',
       ''usr/share/bash-completion/completions/sbctl'' \<mapsto> demo_script ''bash'',
       ''usr/share/zsh/site-functions/_sbctl'' \<mapsto> demo_script ''zsh'',
       ''usr/share/fish/vendor_completions.d/sbctl.fish'' \<mapsto> demo_script ''fish'',
       ''usr/share/licenses/sbctl/LICENSE'' \<mapsto> ''MIT License'')"
  by (rule sbctl_build_then_install [of demo_ctx demo_runner "[]"
        "(wrksrc demo_ctx)(''/builddir/sbctl-0.12/docs/sbctl.8'' \<mapsto> ''.TH SBCTL 8'')"
        "''.TH SBCTL 8''" "''MIT License''" demo_script])
    (simp_all add: demo_defs)

end
